theory Spec2Isabelle
  imports Complex_Main "HOL-Library.Monad_Syntax"
begin

section \<open>MOSFET lifetime simulation: thermal network, rainflow counting, damage\<close>

text \<open>
  A shallow embedding of \<^verbatim>\<open>thermal_simulation.py\<close>, \<^verbatim>\<open>lifetime_estimation.py\<close> and
  \<^verbatim>\<open>mosfet_params.py\<close>. Python and numpy floats are idealised as \<^typ>\<open>real\<close>: rounding,
  overflow, \<^verbatim>\<open>inf\<close> and \<^verbatim>\<open>nan\<close> are outside the model, with the one exception of the
  \<^verbatim>\<open>float('inf')\<close> that \<^verbatim>\<open>estimate_lifetime_years\<close> returns on purpose. A list read
  out of range (Python's IndexError) is the value \<^term>\<open>None\<close>.
\<close>

subsection \<open>Device parameters (mosfet\_params.py)\<close>

text \<open>The dictionary of one device, with the keys the simulation reads.\<close>

record lifetime_params =
  lp_A :: real
  lp_n :: real
  lp_Ea :: real

record mosfet_params =
  R_DS_ON_25 :: real
  R_DS_ON_TEMP_COEFF :: real
  T_ON_25 :: real
  T_OFF_25 :: real
  E_OSS_25 :: real
  Q_RR_25 :: real
  R_TH :: "real list"
  C_TH :: "real list"
  K_T_SW :: real
  K_E_OSS :: real
  K_Q_RR :: real
  C_OSS :: real
  COOLING_COEFF :: real
  SURFACE_AREA :: real
  MAX_TEMP :: real
  LIFETIME_PARAMS :: lifetime_params

definition SPB20N60C3 :: mosfet_params where
  "SPB20N60C3 = \<lparr>
     R_DS_ON_25 = 0.19,
     R_DS_ON_TEMP_COEFF = 0.01,
     T_ON_25 = 25 / 10 ^ 9,
     T_OFF_25 = 35 / 10 ^ 9,
     E_OSS_25 = 3.2 / 10 ^ 6,
     Q_RR_25 = 0.8 / 10 ^ 6,
     R_TH = [0.05, 0.1, 0.15, 0.2, 0.25],
     C_TH = [1.5 / 10 ^ 6, 1.5 / 10 ^ 5, 1.5 / 10 ^ 4, 1.5 / 10 ^ 3, 1.5 / 10 ^ 2],
     K_T_SW = 0.004,
     K_E_OSS = 0.0015,
     K_Q_RR = 0.0025,
     C_OSS = 150 / 10 ^ 12,
     COOLING_COEFF = 15,
     SURFACE_AREA = 0.0012,
     MAX_TEMP = 175,
     LIFETIME_PARAMS = \<lparr> lp_A = 3.5 * 10 ^ 5, lp_n = 5.1, lp_Ea = 0.54 \<rparr> \<rparr>"

subsection \<open>Indexing\<close>

text \<open>\<^verbatim>\<open>xs[i]\<close> for an index that is not negative; \<^term>\<open>None\<close> is IndexError.\<close>

definition item :: "'a list \<Rightarrow> nat \<Rightarrow> 'a option" where
  "item xs i = (if i < length xs then Some (xs ! i) else None)"

text \<open>\<^verbatim>\<open>xs[i]\<close> for a signed index: a negative index counts from the end.\<close>

definition np_item :: "'a list \<Rightarrow> int \<Rightarrow> 'a option" where
  "np_item xs i =
     (let len = int (length xs); j = (if i < 0 then len + i else i)
      in if 0 \<le> j \<and> j < len then Some (xs ! nat j) else None)"

subsection \<open>Power dissipation (thermal\_simulation.py)\<close>

text \<open>Returns \<open>(p_total, p_cond, p_sw, p_cap)\<close>.\<close>

definition calculate_power_dissipation ::
  "real \<Rightarrow> real \<Rightarrow> real \<Rightarrow> mosfet_params \<Rightarrow> real \<Rightarrow> real \<times> real \<times> real \<times> real" where
  "calculate_power_dissipation v_ds i_d t_j params f_sw =
     (let r_ds_on = R_DS_ON_25 params * (1 + R_DS_ON_TEMP_COEFF params * (t_j - 25));
          p_cond = i_d ^ 2 * r_ds_on;
          t_on = T_ON_25 params * (1 + K_T_SW params * (t_j - 25));
          t_off = T_OFF_25 params * (1 + K_T_SW params * (t_j - 25));
          e_oss = E_OSS_25 params * (1 + K_E_OSS params * (t_j - 25));
          q_rr = Q_RR_25 params * (1 + K_Q_RR params * (t_j - 25));
          e_on = 0.5 * v_ds * i_d * t_on;
          e_off = 0.5 * v_ds * i_d * t_off;
          e_rr = v_ds * q_rr;
          p_sw = (e_on + e_off + e_oss + e_rr) * f_sw;
          p_cap = 0.5 * C_OSS params * v_ds ^ 2 * f_sw;
          p_total = p_cond + p_sw + p_cap
      in (p_total, p_cond, p_sw, p_cap))"

subsection \<open>Thermal network derivative (thermal\_simulation.py)\<close>

definition non_linear_thermal_properties ::
  "real \<Rightarrow> mosfet_params \<Rightarrow> real list \<times> real list" where
  "non_linear_thermal_properties t_j params =
     (map (\<lambda>r. r * (1 + 0.005 * (t_j - 25))) (R_TH params),
      map (\<lambda>c. c * (1 + 0.002 * (t_j - 25))) (C_TH params))"

text \<open>
  The body of the loop over the nodes of \<^verbatim>\<open>thermal_model\<close>: the value stored in
  \<^verbatim>\<open>dy[i]\<close>, with the three branches in the order of the source.
\<close>

definition node_derivative ::
  "real list \<Rightarrow> real list \<Rightarrow> real list \<Rightarrow> real \<Rightarrow> real \<Rightarrow> real \<Rightarrow> nat \<Rightarrow> nat \<Rightarrow> real option" where
  "node_derivative y r_th c_th t_amb p_total p_cool n i =
     (if i = 0 then
        do { yi \<leftarrow> item y i;
             ynext \<leftarrow> (if i + 1 < n then item y (i + 1) else Some 0);
             r \<leftarrow> item r_th i;
             c \<leftarrow> item c_th i;
             Some ((p_total - p_cool - (yi - ynext) / r) / c) }
      else if i = n - 1 then
        do { yprev \<leftarrow> item y (i - 1);
             yi \<leftarrow> item y i;
             r \<leftarrow> item r_th i;
             c \<leftarrow> item c_th i;
             Some (((yprev - yi) / r - (yi - t_amb) / r) / c) }
      else
        do { yprev \<leftarrow> item y (i - 1);
             yi \<leftarrow> item y i;
             r \<leftarrow> item r_th i;
             ynext \<leftarrow> item y (i + 1);
             rnext \<leftarrow> item r_th (i + 1);
             c \<leftarrow> item c_th i;
             Some (((yprev - yi) / r - (yi - ynext) / rnext) / c) })"

text \<open>
  \<^verbatim>\<open>thermal_model(t, y, params, v_ds_func, i_d_func, t_amb, f_sw)\<close>. The two interpolated
  waveforms are functions of the time.
\<close>

definition thermal_model ::
  "real \<Rightarrow> real list \<Rightarrow> mosfet_params \<Rightarrow> (real \<Rightarrow> real) \<Rightarrow> (real \<Rightarrow> real) \<Rightarrow> real \<Rightarrow> real
     \<Rightarrow> real list option" where
  "thermal_model t y params v_ds_func i_d_func t_amb f_sw =
     do { y0 \<leftarrow> item y 0;
          let t_j = y0 + t_amb;
          let (r_th, c_th) = non_linear_thermal_properties t_j params;
          let n = length r_th;
          let v_ds = v_ds_func t;
          let i_d = i_d_func t;
          let (p_total, p_cond, p_sw, p_cap) = calculate_power_dissipation v_ds i_d t_j params f_sw;
          let p_cool = COOLING_COEFF params * SURFACE_AREA params * (t_j - t_amb);
          those (map (node_derivative y r_th c_th t_amb p_total p_cool n) [0..<n]) }"

text \<open>
  The derivative the ladder network prescribes for the last node (for \<open>n \<ge> 2\<close>): the
  node's own rise \<open>y[n-1]\<close> drives the conduction to ambient.
\<close>

definition last_node_rise_derivative :: "real list \<Rightarrow> real list \<Rightarrow> real list \<Rightarrow> nat \<Rightarrow> real" where
  "last_node_rise_derivative y r_th c_th n =
     ((y ! (n - 2) - y ! (n - 1)) / r_th ! (n - 1) - y ! (n - 1) / r_th ! (n - 1)) / c_th ! (n - 1)"

text \<open>
  The derivative the ladder network prescribes for an interior node \<open>i\<close>: in from node
  \<open>i - 1\<close> through \<open>R_TH[i-1]\<close>, out to node \<open>i + 1\<close> through \<open>R_TH[i]\<close>.
\<close>

definition interior_node_ladder_derivative ::
  "real list \<Rightarrow> real list \<Rightarrow> real list \<Rightarrow> nat \<Rightarrow> real" where
  "interior_node_ladder_derivative y r_th c_th i =
     ((y ! (i - 1) - y ! i) / r_th ! (i - 1) - (y ! i - y ! (i + 1)) / r_th ! i) / c_th ! i"

subsection \<open>Waveform interpolation (thermal\_simulation.py)\<close>

text \<open>
  The exceptions of interest. No code of the repository raises or defines
  \<open>InvalidWaveformError\<close>; it is the name the specification uses.
\<close>

datatype py_exception = ValueError | InvalidWaveformError | LibraryError

text \<open>
  \<^verbatim>\<open>create_interpolation_function(waveform)\<close>. The unpacking \<^verbatim>\<open>t, y = zip(*waveform)\<close>
  raises ValueError on an empty list (nothing to unpack) and otherwise splits the samples
  into times and values. The constructor \<^verbatim>\<open>interp1d\<close> belongs to the scipy library and
  not to the repository: it is a parameter, whose result is an exception or the
  interpolating function.
\<close>

definition create_interpolation_function ::
  "(real list \<Rightarrow> real list \<Rightarrow> py_exception + 'f) \<Rightarrow> (real \<times> real) list \<Rightarrow> py_exception + 'f" where
  "create_interpolation_function interp1d waveform =
     (if waveform = [] then Inl ValueError
      else interp1d (map fst waveform) (map snd waveform))"

text \<open>The precondition the specification gives for a waveform.\<close>

fun strictly_increasing :: "real list \<Rightarrow> bool" where
  "strictly_increasing (a # b # xs) = (a < b \<and> strictly_increasing (b # xs))"
| "strictly_increasing _ = True"

subsection \<open>Rainflow counting (lifetime\_estimation.py)\<close>

text \<open>A cycle is the row \<open>[amplitude, mean, weight]\<close>.\<close>

type_synonym cycle = "real \<times> real \<times> real"

text \<open>\<^verbatim>\<open>np.diff\<close>: the consecutive differences.\<close>

fun np_diff :: "real list \<Rightarrow> real list" where
  "np_diff (a # b # xs) = (b - a) # np_diff (b # xs)"
| "np_diff _ = []"

text \<open>
  \<^verbatim>\<open>np.where((diff[:-1] > 0) & (diff[1:] <= 0))[0] + 1\<close> and its mirror image: position
  \<open>j\<close> pairs \<open>diff[j]\<close> with \<open>diff[j+1]\<close>.
\<close>

definition peaks :: "real list \<Rightarrow> int list" where
  "peaks d = [int j + 1. j \<leftarrow> [0..<length d - 1], d ! j > 0 \<and> d ! (j + 1) \<le> 0]"

definition valleys :: "real list \<Rightarrow> int list" where
  "valleys d = [int j + 1. j \<leftarrow> [0..<length d - 1], d ! j < 0 \<and> d ! (j + 1) \<ge> 0]"

definition extrema :: "real list \<Rightarrow> int list" where
  "extrema signal =
     (let d = np_diff signal
      in sort (peaks d @ valleys d @ [0, int (length signal) - 1]))"

text \<open>\<^verbatim>\<open>signal[extrema[i]]\<close>.\<close>

definition signal_at :: "real list \<Rightarrow> int list \<Rightarrow> nat \<Rightarrow> real option" where
  "signal_at signal ext i = Option.bind (item ext i) (np_item signal)"

text \<open>
  The stack is kept with its top at the head of the list: \<^verbatim>\<open>stack[-3:]\<close> is
  \<open>(i1, i2, i3)\<close> for the stack \<open>i3 # i2 # i1 # rest\<close>, and \<^verbatim>\<open>stack.pop(-2)\<close> removes
  \<open>i2\<close>. The inner \<^verbatim>\<open>while len(stack) >= 3\<close> loop:
\<close>

fun reduce_stack ::
  "real list \<Rightarrow> int list \<Rightarrow> real \<Rightarrow> nat list \<Rightarrow> cycle list \<Rightarrow> (nat list \<times> cycle list) option" where
  "reduce_stack signal ext min_delta_T (i3 # i2 # i1 # rest) cycles =
     (case signal_at signal ext i1 of None \<Rightarrow> None | Some x1 \<Rightarrow>
      case signal_at signal ext i2 of None \<Rightarrow> None | Some x2 \<Rightarrow>
      case signal_at signal ext i3 of None \<Rightarrow> None | Some x3 \<Rightarrow>
        if \<bar>x2 - x1\<bar> \<ge> min_delta_T \<and> \<bar>x3 - x2\<bar> \<le> \<bar>x2 - x1\<bar>
        then reduce_stack signal ext min_delta_T (i3 # i1 # rest)
               (cycles @ [(\<bar>x2 - x1\<bar> / 2, (x1 + x2) / 2, 1)])
        else Some (i3 # i2 # i1 # rest, cycles))"
| "reduce_stack signal ext min_delta_T stack cycles = Some (stack, cycles)"

text \<open>The \<^verbatim>\<open>for i in range(...)\<close> loop over the indices it is given, in order.\<close>

fun push_all ::
  "real list \<Rightarrow> int list \<Rightarrow> real \<Rightarrow> nat list \<Rightarrow> nat list \<Rightarrow> cycle list
     \<Rightarrow> (nat list \<times> cycle list) option" where
  "push_all signal ext min_delta_T [] stack cycles = Some (stack, cycles)"
| "push_all signal ext min_delta_T (i # is) stack cycles =
     (case reduce_stack signal ext min_delta_T (i # stack) cycles of
        None \<Rightarrow> None
      | Some (stack', cycles') \<Rightarrow> push_all signal ext min_delta_T is stack' cycles')"

text \<open>The final \<^verbatim>\<open>while len(stack) >= 2\<close> loop, which pops the top each time.\<close>

fun drain ::
  "real list \<Rightarrow> int list \<Rightarrow> real \<Rightarrow> nat list \<Rightarrow> cycle list \<Rightarrow> cycle list option" where
  "drain signal ext min_delta_T (i2 # i1 # rest) cycles =
     (case signal_at signal ext i1 of None \<Rightarrow> None | Some x1 \<Rightarrow>
      case signal_at signal ext i2 of None \<Rightarrow> None | Some x2 \<Rightarrow>
        drain signal ext min_delta_T (i1 # rest)
          (if \<bar>x2 - x1\<bar> \<ge> min_delta_T
           then cycles @ [(\<bar>x2 - x1\<bar> / 2, (x1 + x2) / 2, 0.5)]
           else cycles))"
| "drain signal ext min_delta_T stack cycles = Some cycles"

text \<open>
  \<^verbatim>\<open>rainflow(signal, min_delta_T)\<close>: the loop runs over \<^verbatim>\<open>range(len(extrema) - 1)\<close>.
  The result is the list of cycles and its length.
\<close>

definition rainflow :: "real list \<Rightarrow> real \<Rightarrow> (cycle list \<times> nat) option" where
  "rainflow signal min_delta_T =
     (let ext = extrema signal
      in case push_all signal ext min_delta_T [0..<length ext - 1] [] [] of
           None \<Rightarrow> None
         | Some (stack, cycles) \<Rightarrow>
             (case drain signal ext min_delta_T stack cycles of
                None \<Rightarrow> None
              | Some cycles' \<Rightarrow> Some (cycles', length cycles')))"

text \<open>
  The extractor as the specification words it, pushing every extremum of the reduced
  signal, the last sample included; it differs from \<^const>\<open>rainflow\<close> in the range of
  the loop only.
\<close>

definition rainflow_every_extremum :: "real list \<Rightarrow> real \<Rightarrow> (cycle list \<times> nat) option" where
  "rainflow_every_extremum signal min_delta_T =
     (let ext = extrema signal
      in case push_all signal ext min_delta_T [0..<length ext] [] [] of
           None \<Rightarrow> None
         | Some (stack, cycles) \<Rightarrow>
             (case drain signal ext min_delta_T stack cycles of
                None \<Rightarrow> None
              | Some cycles' \<Rightarrow> Some (cycles', length cycles')))"

text \<open>The invariant of an emitted cycle: amplitude and weight.\<close>

definition cycle_ok :: "real \<Rightarrow> cycle \<Rightarrow> bool" where
  "cycle_ok min_delta_T c =
     (case c of (amplitude, mean, weight) \<Rightarrow>
        min_delta_T / 2 \<le> amplitude \<and> (weight = 1 \<or> weight = 0.5))"

text \<open>
  The total peak-to-peak swing of a signal that is not empty.
\<close>

definition peak_to_peak :: "real list \<Rightarrow> real" where
  "peak_to_peak signal = Max (set signal) - Min (set signal)"

text \<open>
  What every appended row looks like: built from two samples \<open>x1\<close>, \<open>x2\<close> of the signal
  whose distance reaches the threshold.
\<close>

definition emitted :: "real list \<Rightarrow> real \<Rightarrow> cycle \<Rightarrow> bool" where
  "emitted signal min_delta_T c =
     (\<exists>x1 \<in> set signal. \<exists>x2 \<in> set signal. \<exists>w.
        min_delta_T \<le> \<bar>x2 - x1\<bar> \<and> (w = 1 \<or> w = 0.5) \<and>
        c = (\<bar>x2 - x1\<bar> / 2, (x1 + x2) / 2, w))"

text \<open>The read \<^verbatim>\<open>signal[extrema[i]]\<close> succeeds and yields a sample.\<close>

definition readable :: "real list \<Rightarrow> int list \<Rightarrow> nat \<Rightarrow> bool" where
  "readable signal ext i = (\<exists>x \<in> set signal. signal_at signal ext i = Some x)"

subsection \<open>Damage and lifetime (lifetime\_estimation.py)\<close>

text \<open>\<^verbatim>\<open>scipy.constants.k\<close>, the Boltzmann constant in J/K (an exact SI value).\<close>

definition boltzmann_constant :: real where
  "boltzmann_constant = 1.380649 / 10 ^ 23"

definition kb :: real where
  "kb = boltzmann_constant / (1.60218 / 10 ^ 19)"

text \<open>
  \<^verbatim>\<open>delta_T ** -n\<close> is \<^term>\<open>delta_T powr (- n)\<close>, which is the power for a positive base.
  For \<open>delta_T \<le> 0\<close> and for \<open>T_mean = -273.15\<close> the float computation is not a
  computation on reals (a division by zero, a power of a negative base): what is proved
  of the value of this function is proved for \<open>0 < delta_T\<close> and
  \<open>T_mean + 273.15 \<noteq> 0\<close>.
\<close>

definition calculate_cycles_to_failure :: "real \<Rightarrow> real \<Rightarrow> lifetime_params \<Rightarrow> real" where
  "calculate_cycles_to_failure delta_T T_mean params =
     (let A = lp_A params; n = lp_n params; Ea = lp_Ea params;
          T_kelvin = T_mean + 273.15;
          N_f = A * (delta_T powr (- n)) * exp (Ea / (kb * T_kelvin))
      in max N_f 1)"

text \<open>The loop of \<^verbatim>\<open>miners_rule_degradation\<close> over the rows of the cycle array.\<close>

fun miners_loop ::
  "lifetime_params \<Rightarrow> cycle list \<Rightarrow> real \<Rightarrow> (real \<times> real) list \<Rightarrow> real \<times> (real \<times> real) list" where
  "miners_loop params [] damage cycles_to_failure = (damage, cycles_to_failure)"
| "miners_loop params ((delta_T, T_mean, n) # cycles) damage cycles_to_failure =
     (let N_f = calculate_cycles_to_failure delta_T T_mean params
      in miners_loop params cycles (damage + n / N_f) (cycles_to_failure @ [(delta_T, N_f)]))"

definition miners_rule_degradation ::
  "cycle list \<Rightarrow> lifetime_params \<Rightarrow> real \<times> (real \<times> real) list" where
  "miners_rule_degradation cycles params =
     (if length cycles = 0 then (0, [])
      else (let (damage, cycles_to_failure) = miners_loop params cycles 0 []
            in (max damage (1 / 10 ^ 10), cycles_to_failure)))"

text \<open>
  A lifetime in years is \<^verbatim>\<open>float('inf')\<close> or a finite number. The only caller passes
  no \<^verbatim>\<open>cycles_per_year\<close>, so the divisor is the default, which is not zero.
\<close>

datatype lifetime = Unbounded | Years real

definition estimate_lifetime_years :: "real \<Rightarrow> int \<Rightarrow> lifetime" where
  "estimate_lifetime_years degradation cycles_per_year =
     (if degradation \<le> 0 then Unbounded
      else Years (min ((1 / degradation) / of_int cycles_per_year) 100))"

text \<open>The default value of the parameter \<^verbatim>\<open>cycles_per_year\<close>.\<close>

definition default_cycles_per_year :: int where
  "default_cycles_per_year = 100000"

text \<open>
  \<^verbatim>\<open>estimate_lifetime(t_j, lifetime_params)\<close> returns
  \<open>(degradation, estimated_years, total_cycles, cycles_to_failure)\<close>.
\<close>

definition estimate_lifetime ::
  "real list \<Rightarrow> lifetime_params \<Rightarrow> (real \<times> lifetime \<times> nat \<times> (real \<times> real) list) option" where
  "estimate_lifetime t_j lifetime_params =
     (case rainflow t_j 0.1 of
        None \<Rightarrow> None
      | Some (temp_cycles, total_cycles) \<Rightarrow>
          (let (degradation, cycles_to_failure) = miners_rule_degradation temp_cycles lifetime_params;
               estimated_years = estimate_lifetime_years degradation default_cycles_per_year
           in Some (degradation, estimated_years, total_cycles, cycles_to_failure)))"

section \<open>Results\<close>

subsection \<open>Power dissipation\<close>

lemmas thermal_defs = thermal_model_def item_def non_linear_thermal_properties_def
  SPB20N60C3_def calculate_power_dissipation_def node_derivative_def Let_def

text \<open>Claim C7. The power dissipation function returns the conduction loss, the
  switching loss with each of the four switching quantities scaled linearly in
  \<open>t_j - 25\<close> by its own coefficient, the capacitive loss, and their sum as the total.\<close>

theorem calculate_power_dissipation_formula:
  "(case calculate_power_dissipation v_ds i_d t_j params f_sw of
      (p_total, p_cond, p_sw, p_cap) \<Rightarrow>
        p_cond = i_d ^ 2 * R_DS_ON_25 params * (1 + R_DS_ON_TEMP_COEFF params * (t_j - 25)) \<and>
        p_sw = (0.5 * v_ds * i_d * (T_ON_25 params * (1 + K_T_SW params * (t_j - 25)))
                + 0.5 * v_ds * i_d * (T_OFF_25 params * (1 + K_T_SW params * (t_j - 25)))
                + E_OSS_25 params * (1 + K_E_OSS params * (t_j - 25))
                + v_ds * (Q_RR_25 params * (1 + K_Q_RR params * (t_j - 25)))) * f_sw \<and>
        p_cap = 0.5 * C_OSS params * v_ds ^ 2 * f_sw \<and>
        p_total = p_cond + p_sw + p_cap)"
  by (simp add: calculate_power_dissipation_def Let_def)

subsection \<open>Thermal network\<close>

text \<open>Claim C1. The last node should conduct to ambient with its own rise \<open>y[n-1]\<close> as
  the driving difference. The code subtracts \<open>t_amb\<close> from that rise once more. At the
  initial state of the reference scenario (device SPB20N60C3, all rises zero, no load
  at \<open>t = 0\<close>, ambient 50, switching frequency 10) the network is at ambient
  temperature, the derivative the claim gives for the last node is \<open>0\<close>, and the code
  returns \<open>6400000 / 567\<close>: the last node heats up from the ambient it sits at.\<close>

theorem thermal_model_last_node_subtracts_ambient:
  "thermal_model 0 [0, 0, 0, 0, 0] SPB20N60C3 (\<lambda>t. 0) (\<lambda>t. 0) 50 10
     = Some [1328 / 63, 0, 0, 0, 6400000 / 567] \<and>
   last_node_rise_derivative [0, 0, 0, 0, 0]
     (fst (non_linear_thermal_properties 50 SPB20N60C3))
     (snd (non_linear_thermal_properties 50 SPB20N60C3)) 5 = 0"
  by (simp add: thermal_defs last_node_rise_derivative_def upt_rec)

text \<open>Claim C2. An interior node \<open>i\<close> should take heat in through \<open>R_TH[i-1]\<close> and give
  heat out through \<open>R_TH[i]\<close>, as node 0 does towards node 1 with \<open>R_TH[0]\<close>. The code
  uses \<open>R_TH[i]\<close> and \<open>R_TH[i+1]\<close>. With the rises \<open>[0, 1, 0, 0, 0]\<close> on the same device
  the code's derivative of node 1 is \<open>- (1600000000 / 1701)\<close>, the ladder's is
  \<open>- (320000000 / 189)\<close>.\<close>

theorem thermal_model_interior_node_shifted_resistances:
  "thermal_model 0 [0, 1, 0, 0, 0] SPB20N60C3 (\<lambda>t. 0) (\<lambda>t. 0) 50 10
     = Some [6400011952 / 567, - (1600000000 / 1701), 64000000 / 1701, 0, 6400000 / 567] \<and>
   interior_node_ladder_derivative [0, 1, 0, 0, 0]
     (fst (non_linear_thermal_properties 50 SPB20N60C3))
     (snd (non_linear_thermal_properties 50 SPB20N60C3)) 1 = - (320000000 / 189)"
  by (simp add: thermal_defs interior_node_ladder_derivative_def upt_rec)

subsection \<open>Waveform interpolation\<close>

text \<open>Claim C8, as the code has it. The function validates nothing itself: the empty
  sequence fails in the unpacking with ValueError, whatever the library does, and every
  other sequence goes to \<^verbatim>\<open>interp1d\<close> as it is, times and values in the given order,
  so that success and failure are the library's.\<close>

theorem create_interpolation_function_no_validation:
  "create_interpolation_function interp1d [] = Inl ValueError \<and>
   (waveform \<noteq> [] \<longrightarrow>
      create_interpolation_function interp1d waveform
        = interp1d (map fst waveform) (map snd waveform))"
  by (simp add: create_interpolation_function_def)

text \<open>Two samples with decreasing times, and a library constructor that accepts what
  it is given.\<close>

theorem create_interpolation_function_no_validation_witness:
  "create_interpolation_function
     (\<lambda>t y. Inr (t, y) :: py_exception + real list \<times> real list) [] = Inl ValueError \<and>
   [(1, 0), (0, 1 :: real)] \<noteq> [] \<and>
   \<not> strictly_increasing (map fst [(1, 0), (0, 1 :: real)]) \<and>
   create_interpolation_function
     (\<lambda>t y. Inr (t, y) :: py_exception + real list \<times> real list) [(1, 0), (0, 1)]
     = Inr ([1, 0], [0, 1])"
  using create_interpolation_function_no_validation
    [of "\<lambda>t y. Inr (t, y) :: py_exception + real list \<times> real list" "[(1, 0), (0, 1)]"]
  by simp

text \<open>The sequence with no sample has fewer than two samples, and the failure is not
  an InvalidWaveformError.\<close>

theorem create_interpolation_function_empty_counterexample:
  "length ([] :: (real \<times> real) list) < 2 \<and>
   create_interpolation_function
     (\<lambda>t y. Inr (t, y) :: py_exception + real list \<times> real list) []
     \<noteq> Inl InvalidWaveformError"
  by (simp add: create_interpolation_function_def)

subsection \<open>Rainflow counting\<close>

lemmas rainflow_defs = extrema_def peaks_def valleys_def signal_at_def item_def np_item_def

text \<open>Claim C3. Every extremum of the reduced signal should be pushed, the last sample
  included. The loop runs over \<^verbatim>\<open>range(len(extrema) - 1)\<close> and never pushes the last
  extremum. For the signal \<open>[0, 1, 0]\<close> the reduced signal has the three extrema
  \<open>0, 1, 2\<close>; pushing all three closes one full cycle of weight \<open>1\<close>, and the code,
  which pushes two, returns one residual half cycle of weight \<open>1/2\<close>.\<close>

theorem rainflow_skips_last_extremum:
  "extrema [0, 1, 0] = [0, 1, 2] \<and>
   rainflow [0, 1, 0] 0.1 = Some ([(1 / 2, 1 / 2, 1 / 2)], 1) \<and>
   rainflow_every_extremum [0, 1, 0] 0.1 = Some ([(1 / 2, 1 / 2, 1)], 1)"
  by (simp add: rainflow_def rainflow_every_extremum_def rainflow_defs upt_rec)

text \<open>The reads of the extractor never leave the signal, and every row it appends is
  built from two samples at least \<open>min_delta_T\<close> apart.\<close>

lemma length_np_diff: "length (np_diff xs) = length xs - 1"
  by (induction xs rule: np_diff.induct) simp_all

lemma peaks_range: "e \<in> set (peaks d) \<Longrightarrow> 0 \<le> e \<and> e < int (length d)"
  by (auto simp: peaks_def)

lemma valleys_range: "e \<in> set (valleys d) \<Longrightarrow> 0 \<le> e \<and> e < int (length d)"
  by (auto simp: valleys_def)

lemma extrema_range:
  assumes "signal \<noteq> []" and "e \<in> set (extrema signal)"
  shows "0 \<le> e \<and> e < int (length signal)"
proof -
  have len: "0 < length signal" using assms(1) by simp
  from assms(2) consider "e \<in> set (peaks (np_diff signal))" | "e \<in> set (valleys (np_diff signal))"
    | "e = 0" | "e = int (length signal) - 1"
    by (auto simp: extrema_def Let_def)
  then show ?thesis
  proof cases
    case 1
    from peaks_range [OF this] show ?thesis using len by (simp add: length_np_diff)
  next
    case 2
    from valleys_range [OF this] show ?thesis using len by (simp add: length_np_diff)
  next
    case 3
    then show ?thesis using len by simp
  next
    case 4
    then show ?thesis using len by simp
  qed
qed

lemma readable_extrema:
  assumes "signal \<noteq> []" and "i < length (extrema signal)"
  shows "readable signal (extrema signal) i"
proof -
  have "extrema signal ! i \<in> set (extrema signal)" using assms(2) by simp
  from extrema_range [OF assms(1) this]
  have r: "0 \<le> extrema signal ! i" "extrema signal ! i < int (length signal)" by simp_all
  then have "nat (extrema signal ! i) < length signal" by simp
  then have "signal ! nat (extrema signal ! i) \<in> set signal" by simp
  then show ?thesis using assms(2) r
    by (simp add: readable_def signal_at_def item_def np_item_def Let_def)
qed

lemma reduce_stack_emits:
  assumes "\<forall>i \<in> set stack. readable signal ext i"
  shows "\<exists>stack' new. reduce_stack signal ext m stack cycles = Some (stack', cycles @ new)
           \<and> set stack' \<subseteq> set stack \<and> (\<forall>c \<in> set new. emitted signal m c)"
  using assms
proof (induction signal ext m stack cycles rule: reduce_stack.induct)
  case (1 signal ext m i3 i2 i1 rest cycles)
  from "1.prems" obtain x1 x2 x3 where
    x: "signal_at signal ext i1 = Some x1" "signal_at signal ext i2 = Some x2"
       "signal_at signal ext i3 = Some x3"
    and mem: "x1 \<in> set signal" "x2 \<in> set signal"
    by (auto simp: readable_def)
  show ?case
  proof (cases "\<bar>x2 - x1\<bar> \<ge> m \<and> \<bar>x3 - x2\<bar> \<le> \<bar>x2 - x1\<bar>")
    case True
    have "\<forall>i \<in> set (i3 # i1 # rest). readable signal ext i" using "1.prems" by simp
    from "1.IH" [OF x(1) x(2) x(3) True this]
    obtain stack' new where
      r: "reduce_stack signal ext m (i3 # i1 # rest)
            (cycles @ [(\<bar>x2 - x1\<bar> / 2, (x1 + x2) / 2, 1)])
          = Some (stack', (cycles @ [(\<bar>x2 - x1\<bar> / 2, (x1 + x2) / 2, 1)]) @ new)"
      and sub: "set stack' \<subseteq> set (i3 # i1 # rest)"
      and em: "\<forall>c \<in> set new. emitted signal m c"
      by blast
    have e1: "emitted signal m (\<bar>x2 - x1\<bar> / 2, (x1 + x2) / 2, 1)"
      unfolding emitted_def using mem True by blast
    have "reduce_stack signal ext m (i3 # i2 # i1 # rest) cycles
          = Some (stack', cycles @ ((\<bar>x2 - x1\<bar> / 2, (x1 + x2) / 2, 1) # new))"
      using x True r by simp
    moreover have "set stack' \<subseteq> set (i3 # i2 # i1 # rest)" using sub by auto
    moreover have "\<forall>c \<in> set ((\<bar>x2 - x1\<bar> / 2, (x1 + x2) / 2, 1) # new). emitted signal m c"
      using e1 em by simp
    ultimately show ?thesis by blast
  next
    case False
    then have "reduce_stack signal ext m (i3 # i2 # i1 # rest) cycles
          = Some (i3 # i2 # i1 # rest, cycles @ [])"
      using x by auto
    then show ?thesis by (metis empty_iff list.set(1) subset_refl)
  qed
qed (simp_all)

lemma push_all_emits:
  assumes "\<forall>i \<in> set idxs \<union> set stack. readable signal ext i"
  shows "\<exists>stack' new. push_all signal ext m idxs stack cycles = Some (stack', cycles @ new)
           \<and> set stack' \<subseteq> set idxs \<union> set stack \<and> (\<forall>c \<in> set new. emitted signal m c)"
  using assms
proof (induction idxs arbitrary: stack cycles)
  case Nil
  then show ?case by simp
next
  case (Cons i idxs)
  have "\<forall>j \<in> set (i # stack). readable signal ext j" using Cons.prems by simp
  from reduce_stack_emits [OF this, of m cycles]
  obtain s1 n1 where
    r1: "reduce_stack signal ext m (i # stack) cycles = Some (s1, cycles @ n1)"
    and sub1: "set s1 \<subseteq> set (i # stack)"
    and em1: "\<forall>c \<in> set n1. emitted signal m c"
    by blast
  have "\<forall>j \<in> set idxs \<union> set s1. readable signal ext j" using Cons.prems sub1 by auto
  from Cons.IH [OF this, of "cycles @ n1"]
  obtain s2 n2 where
    r2: "push_all signal ext m idxs s1 (cycles @ n1) = Some (s2, (cycles @ n1) @ n2)"
    and sub2: "set s2 \<subseteq> set idxs \<union> set s1"
    and em2: "\<forall>c \<in> set n2. emitted signal m c"
    by blast
  have "push_all signal ext m (i # idxs) stack cycles = Some (s2, cycles @ (n1 @ n2))"
    using r1 r2 by simp
  moreover have "set s2 \<subseteq> set (i # idxs) \<union> set stack" using sub1 sub2 by auto
  moreover have "\<forall>c \<in> set (n1 @ n2). emitted signal m c" using em1 em2 by auto
  ultimately show ?case by blast
qed

lemma drain_emits:
  assumes "\<forall>i \<in> set stack. readable signal ext i"
  shows "\<exists>new. drain signal ext m stack cycles = Some (cycles @ new)
           \<and> (\<forall>c \<in> set new. emitted signal m c)"
  using assms
proof (induction signal ext m stack cycles rule: drain.induct)
  case (1 signal ext m i2 i1 rest cycles)
  from "1.prems" obtain x1 x2 where
    x: "signal_at signal ext i1 = Some x1" "signal_at signal ext i2 = Some x2"
    and mem: "x1 \<in> set signal" "x2 \<in> set signal"
    by (auto simp: readable_def)
  let ?c = "(\<bar>x2 - x1\<bar> / 2, (x1 + x2) / 2, 0.5 :: real)"
  let ?cs = "if \<bar>x2 - x1\<bar> \<ge> m then cycles @ [?c] else cycles"
  have "\<forall>i \<in> set (i1 # rest). readable signal ext i" using "1.prems" by simp
  from "1.IH" [OF x(1) x(2) this]
  obtain new where r: "drain signal ext m (i1 # rest) ?cs = Some (?cs @ new)"
    and em: "\<forall>c \<in> set new. emitted signal m c"
    by blast
  have step: "drain signal ext m (i2 # i1 # rest) cycles = Some (?cs @ new)"
    using x r by simp
  show ?case
  proof (cases "\<bar>x2 - x1\<bar> \<ge> m")
    case True
    have "emitted signal m ?c" unfolding emitted_def using mem True by blast
    then have "\<forall>c \<in> set (?c # new). emitted signal m c" using em by simp
    moreover have "drain signal ext m (i2 # i1 # rest) cycles = Some (cycles @ (?c # new))"
      using step True by simp
    ultimately show ?thesis by blast
  next
    case False
    then show ?thesis using step em by auto
  qed
qed (simp_all)

lemma rainflow_empty: "rainflow [] m = Some ([], 0)"
  by (simp add: rainflow_def extrema_def peaks_def valleys_def)

lemma rainflow_emits:
  "\<exists>cycles. rainflow signal m = Some (cycles, length cycles)
      \<and> (\<forall>c \<in> set cycles. emitted signal m c)"
proof (cases "signal = []")
  case True
  then show ?thesis by (simp add: rainflow_empty)
next
  case False
  let ?ext = "extrema signal"
  have rd: "\<forall>i \<in> set [0..<length ?ext - 1] \<union> set []. readable signal ?ext i"
    using readable_extrema [OF False] by simp
  from push_all_emits [OF rd, of m "[]"]
  obtain stack n1 where
    p: "push_all signal ?ext m [0..<length ?ext - 1] [] [] = Some (stack, n1)"
    and sub: "set stack \<subseteq> set [0..<length ?ext - 1] \<union> set []"
    and em1: "\<forall>c \<in> set n1. emitted signal m c"
    by auto
  have "\<forall>i \<in> set stack. readable signal ?ext i" using sub rd by blast
  from drain_emits [OF this, of m n1]
  obtain n2 where d: "drain signal ?ext m stack n1 = Some (n1 @ n2)"
    and em2: "\<forall>c \<in> set n2. emitted signal m c"
    by blast
  have "rainflow signal m = Some (n1 @ n2, length (n1 @ n2))"
    using p d by (simp add: rainflow_def Let_def)
  moreover have "\<forall>c \<in> set (n1 @ n2). emitted signal m c" using em1 em2 by auto
  ultimately show ?thesis by blast
qed

lemma peak_to_peak_bounds:
  assumes "x \<in> set signal" and "y \<in> set signal"
  shows "\<bar>x - y\<bar> \<le> peak_to_peak signal"
proof -
  have "x \<le> Max (set signal)" "y \<le> Max (set signal)"
    "Min (set signal) \<le> x" "Min (set signal) \<le> y"
    using assms by simp_all
  then show ?thesis unfolding peak_to_peak_def by linarith
qed

text \<open>Claim C9. The extractor returns on every signal, and every cycle it emits, full
  or residual, has an amplitude of at least \<open>min_delta_T / 2\<close> and the weight \<open>1\<close> or
  \<open>1/2\<close>.\<close>

theorem rainflow_cycles_invariant:
  "\<exists>cycles. rainflow signal min_delta_T = Some (cycles, length cycles)
      \<and> (\<forall>c \<in> set cycles. cycle_ok min_delta_T c)"
proof -
  from rainflow_emits [of signal min_delta_T]
  obtain cycles where r: "rainflow signal min_delta_T = Some (cycles, length cycles)"
    and em: "\<forall>c \<in> set cycles. emitted signal min_delta_T c"
    by blast
  have "cycle_ok min_delta_T c" if "c \<in> set cycles" for c
  proof -
    from em that have "emitted signal min_delta_T c" by blast
    then show ?thesis by (auto simp: emitted_def cycle_ok_def)
  qed
  with r show ?thesis by blast
qed

theorem rainflow_cycles_invariant_witness:
  "rainflow [0, 2, 1, 3, 0] 0.1 = Some ([(1, 1, 1), (1, 2, 0.5), (0.5, 0.5, 0.5)], 3)
   \<and> cycle_ok 0.1 (1, 1, 1) \<and> cycle_ok 0.1 (1, 2, 0.5) \<and> cycle_ok 0.1 (0.5, 0.5, 0.5)"
  using rainflow_cycles_invariant [of "[0, 2, 1, 3, 0]" "0.1"]
  by (simp add: rainflow_def rainflow_defs upt_rec)

text \<open>Claim C4, as the code has it. The threshold is compared with the swing itself,
  not with half of it: a signal whose total peak-to-peak swing is strictly below
  \<open>min_delta_T\<close> yields no cycle and the count zero.\<close>

theorem rainflow_below_threshold_no_cycles:
  assumes "signal \<noteq> []" and "peak_to_peak signal < min_delta_T"
  shows "rainflow signal min_delta_T = Some ([], 0)"
proof -
  from rainflow_emits [of signal min_delta_T]
  obtain cycles where r: "rainflow signal min_delta_T = Some (cycles, length cycles)"
    and em: "\<forall>c \<in> set cycles. emitted signal min_delta_T c"
    by blast
  have "cycles = []"
  proof (rule ccontr)
    assume "cycles \<noteq> []"
    then obtain c where "c \<in> set cycles" by (cases cycles) auto
    with em have "emitted signal min_delta_T c" by blast
    then obtain x1 x2 where x: "x1 \<in> set signal" "x2 \<in> set signal"
      and far: "min_delta_T \<le> \<bar>x2 - x1\<bar>"
      by (auto simp: emitted_def)
    from peak_to_peak_bounds [OF x(2) x(1)] far assms(2) show False by linarith
  qed
  with r show ?thesis by simp
qed

theorem rainflow_below_threshold_no_cycles_witness:
  "[0, 0.05, 0 :: real] \<noteq> [] \<and> peak_to_peak [0, 0.05, 0] < 0.1
   \<and> rainflow [0, 0.05, 0] 0.1 = Some ([], 0)"
  using rainflow_below_threshold_no_cycles [of "[0, 0.05, 0]" "0.1"]
  by (simp add: peak_to_peak_def)

text \<open>A swing of \<open>0.15\<close> is below twice the threshold \<open>0.1\<close> and yields a cycle.\<close>

theorem rainflow_below_twice_threshold_counterexample:
  "peak_to_peak [0, 0.15, 0] < 2 * 0.1 \<and>
   rainflow [0, 0.15, 0] 0.1 = Some ([(3 / 40, 3 / 40, 1 / 2)], 1)"
  by (simp add: peak_to_peak_def rainflow_def rainflow_defs upt_rec)

subsection \<open>Damage and lifetime\<close>

text \<open>Claim C5, as the code has it. A damage \<open>d\<close> with \<open>0 < d \<le> 1e-10\<close> maps to a
  lifetime of exactly 100 years under the default \<open>cycles_per_year\<close>.\<close>

theorem estimate_lifetime_years_floor_cap:
  assumes "0 < d" and "d \<le> 1 / 10 ^ 10"
  shows "estimate_lifetime_years d default_cycles_per_year = Years 100"
proof -
  have "100 * 100000 * d \<le> 100 * 100000 * (1 / 10 ^ 10)" using assms(2) by simp
  then have "100 * 100000 * d \<le> 1" by simp
  then have "100 \<le> (1 / d) / 100000" using assms(1) by (simp add: field_simps)
  then show ?thesis
    using assms(1)
    by (simp add: estimate_lifetime_years_def default_cycles_per_year_def min_def)
qed

theorem estimate_lifetime_years_floor_cap_witness:
  "(0 :: real) < 1 / 10 ^ 10 \<and> (1 :: real) / 10 ^ 10 \<le> 1 / 10 ^ 10 \<and>
   estimate_lifetime_years (1 / 10 ^ 10) default_cycles_per_year = Years 100"
  using estimate_lifetime_years_floor_cap [of "1 / 10 ^ 10"] by simp

text \<open>The damage \<open>0\<close>, which the accumulator returns when no cycle was extracted, is
  below the floor and maps to the unbounded lifetime.\<close>

theorem estimate_lifetime_years_zero_counterexample:
  "(0 :: real) \<le> 1 / 10 ^ 10 \<and>
   estimate_lifetime_years 0 default_cycles_per_year = Unbounded \<and>
   estimate_lifetime_years 0 default_cycles_per_year \<noteq> Years 100"
  by (simp add: estimate_lifetime_years_def)

text \<open>Claim C6, as the code has it. For \<open>n_exp > 0\<close>, \<open>0 < dT1 < dT2\<close> and a mean
  temperature other than \<open>-273.15\<close> (where the formula divides by zero), the cycles to
  failure do not increase with the amplitude, and they strictly decrease whenever the
  clamp to \<open>1\<close> is not active at \<open>dT1\<close>.\<close>

theorem cycles_to_failure_antitone:
  assumes "0 < lp_n params" and "0 < dT1" and "dT1 < dT2" and "T_mean + 273.15 \<noteq> 0"
  shows "calculate_cycles_to_failure dT2 T_mean params
           \<le> calculate_cycles_to_failure dT1 T_mean params
     \<and> (1 < calculate_cycles_to_failure dT1 T_mean params \<longrightarrow>
          calculate_cycles_to_failure dT2 T_mean params
            < calculate_cycles_to_failure dT1 T_mean params)"
proof -
  define E where "E = exp (lp_Ea params / (kb * (T_mean + 273.15)))"
  define N1 where "N1 = lp_A params * (dT1 powr (- lp_n params)) * E"
  define N2 where "N2 = lp_A params * (dT2 powr (- lp_n params)) * E"
  have c1: "calculate_cycles_to_failure dT1 T_mean params = max N1 1"
    by (simp add: calculate_cycles_to_failure_def Let_def N1_def E_def)
  have c2: "calculate_cycles_to_failure dT2 T_mean params = max N2 1"
    by (simp add: calculate_cycles_to_failure_def Let_def N2_def E_def)
  have Epos: "0 < E" by (simp add: E_def)
  have p: "dT2 powr (- lp_n params) < dT1 powr (- lp_n params)"
    using assms by (intro powr_less_mono2_neg) simp_all
  have p1: "0 < dT1 powr (- lp_n params)" using assms by simp
  have p2: "0 < dT2 powr (- lp_n params)" using assms by simp
  show ?thesis
  proof (cases "0 < lp_A params")
    case True
    have "lp_A params * (dT2 powr (- lp_n params)) < lp_A params * (dT1 powr (- lp_n params))"
      using True p by simp
    then have "N2 < N1" unfolding N1_def N2_def using Epos by (rule mult_strict_right_mono)
    then show ?thesis unfolding c1 c2 by (auto simp: max_def)
  next
    case False
    then have A: "lp_A params \<le> 0" by simp
    have "lp_A params * (dT1 powr (- lp_n params)) \<le> 0" using A p1 by (simp add: mult_le_0_iff)
    then have n1: "N1 \<le> 0" unfolding N1_def using Epos by (simp add: mult_le_0_iff)
    have "lp_A params * (dT2 powr (- lp_n params)) \<le> 0" using A p2 by (simp add: mult_le_0_iff)
    then have n2: "N2 \<le> 0" unfolding N2_def using Epos by (simp add: mult_le_0_iff)
    show ?thesis unfolding c1 c2 using n1 n2 by (simp add: max_def)
  qed
qed

theorem cycles_to_failure_antitone_witness:
  "calculate_cycles_to_failure 1 0 \<lparr>lp_A = 4, lp_n = 1, lp_Ea = 0\<rparr>
      \<le> calculate_cycles_to_failure (1 / 2) 0 \<lparr>lp_A = 4, lp_n = 1, lp_Ea = 0\<rparr>
   \<and> calculate_cycles_to_failure 1 0 \<lparr>lp_A = 4, lp_n = 1, lp_Ea = 0\<rparr>
      < calculate_cycles_to_failure (1 / 2) 0 \<lparr>lp_A = 4, lp_n = 1, lp_Ea = 0\<rparr>
   \<and> calculate_cycles_to_failure (1 / 2) 0 \<lparr>lp_A = 4, lp_n = 1, lp_Ea = 0\<rparr> = 8"
proof -
  have v: "calculate_cycles_to_failure (1 / 2) 0 \<lparr>lp_A = 4, lp_n = 1, lp_Ea = 0\<rparr> = 8"
    by (simp add: calculate_cycles_to_failure_def powr_minus)
  from cycles_to_failure_antitone [of "\<lparr>lp_A = 4, lp_n = 1, lp_Ea = 0\<rparr>" "1 / 2" 1 0] v
  show ?thesis by simp
qed

text \<open>With \<open>A = 1\<close>, \<open>n_exp = 1\<close>, \<open>Ea = 0\<close> the amplitudes \<open>2\<close> and \<open>4\<close> give the raw
  values \<open>1/2\<close> and \<open>1/4\<close>, both clamped to \<open>1\<close>: no strict decrease.\<close>

theorem cycles_to_failure_clamped_counterexample:
  "calculate_cycles_to_failure 2 0 \<lparr>lp_A = 1, lp_n = 1, lp_Ea = 0\<rparr> = 1 \<and>
   calculate_cycles_to_failure 4 0 \<lparr>lp_A = 1, lp_n = 1, lp_Ea = 0\<rparr> = 1 \<and>
   \<not> calculate_cycles_to_failure 4 0 \<lparr>lp_A = 1, lp_n = 1, lp_Ea = 0\<rparr>
       < calculate_cycles_to_failure 2 0 \<lparr>lp_A = 1, lp_n = 1, lp_Ea = 0\<rparr>"
  by (simp add: calculate_cycles_to_failure_def powr_minus)

text \<open>Claim C10. Whenever the extractor produces at least one cycle from a trajectory,
  the end-to-end estimate has a damage of at least \<open>1e-10\<close> and a finite lifetime,
  positive and at most 100 years.\<close>

theorem estimate_lifetime_finite:
  assumes "rainflow t_j 0.1 = Some (cycles, total_cycles)" and "cycles \<noteq> []"
  shows "\<exists>degradation years ctf.
           estimate_lifetime t_j params = Some (degradation, Years years, total_cycles, ctf)
           \<and> 1 / 10 ^ 10 \<le> degradation \<and> 0 < years \<and> years \<le> 100"
proof -
  obtain d ctf where ml: "miners_loop params cycles 0 [] = (d, ctf)"
    by (cases "miners_loop params cycles 0 []")
  let ?deg = "max d (1 / 10 ^ 10)"
  have m: "miners_rule_degradation cycles params = (?deg, ctf)"
    using assms(2) ml by (simp add: miners_rule_degradation_def)
  have pos: "0 < ?deg" by (simp add: max_def)
  have e: "estimate_lifetime t_j params
         = Some (?deg, Years (min ((1 / ?deg) / of_int default_cycles_per_year) 100),
                 total_cycles, ctf)"
    using assms(1) m pos by (simp add: estimate_lifetime_def estimate_lifetime_years_def)
  have "0 < (1 / ?deg) / of_int default_cycles_per_year"
    using pos by (simp add: default_cycles_per_year_def)
  then have "0 < min ((1 / ?deg) / of_int default_cycles_per_year) 100" by simp
  moreover have "min ((1 / ?deg) / of_int default_cycles_per_year) 100 \<le> 100" by simp
  moreover have "1 / 10 ^ 10 \<le> ?deg" by simp
  ultimately show ?thesis using e by blast
qed

theorem estimate_lifetime_finite_witness:
  "\<exists>degradation years ctf.
     estimate_lifetime [0, 2, 1, 3, 0] (LIFETIME_PARAMS SPB20N60C3)
       = Some (degradation, Years years, 3, ctf)
     \<and> 1 / 10 ^ 10 \<le> degradation \<and> 0 < years \<and> years \<le> 100"
proof -
  have r: "rainflow [0, 2, 1, 3, 0] 0.1 = Some ([(1, 1, 1), (1, 2, 0.5), (0.5, 0.5, 0.5)], 3)"
    by (simp add: rainflow_def rainflow_defs upt_rec)
  have n: "[(1, 1, 1), (1, 2, 0.5), (0.5, 0.5, 0.5 :: real)] \<noteq> []" by simp
  show ?thesis using estimate_lifetime_finite [OF r n] by simp
qed

end
